theory Spec2Isabelle
  imports Main "HOL-Library.Sublist"
begin

section \<open>The query explainer \<^verbatim>\<open>explain_query_spark.py\<close>\<close>

text \<open>
  The script is a linear pipeline: check the command line, build the path of the query
  file, read it, translate it with sqlglot, and ask a Spark session for the physical
  plan. Everything outside the script (the file system, sqlglot, Spark) is an
  environment record. A run yields an exit status and the trace of everything the
  script did to the outside: each \<^verbatim>\<open>print\<close> call and each call of an outside service,
  in program order.

  Strings are lists of characters with code points below 256. Paths follow
  \<^verbatim>\<open>posixpath\<close>.
\<close>

subsection \<open>Python library functions\<close>

definition quoted :: "string \<Rightarrow> string" where
  \<comment> \<open>\<^verbatim>\<open>'{s}'\<close> inside an f-string\<close>
  "quoted s = CHR 0x27 # s @ [CHR 0x27]"

definition lower_char :: "char \<Rightarrow> char" where
  \<comment> \<open>\<^verbatim>\<open>str.lower\<close> on one code point below 256: A-Z, and the Latin-1 capitals
      0xC0-0xDE without the multiplication sign 0xD7, move up by 32\<close>
  "lower_char c =
     (let n = (of_char c :: nat)
      in if (65 \<le> n \<and> n \<le> 90) \<or> (192 \<le> n \<and> n \<le> 222 \<and> n \<noteq> 215)
         then char_of (n + 32) else c)"

definition py_lower :: "string \<Rightarrow> string" where
  "py_lower s = map lower_char s"

definition is_space :: "char \<Rightarrow> bool" where
  \<comment> \<open>what \<^verbatim>\<open>int()\<close> skips around the number: tab, LF, VT, FF, CR, space, and the
      non-ASCII spaces NEL and NBSP, which it first turns into a space\<close>
  "is_space c = ((of_char c :: nat) \<in> {9, 10, 11, 12, 13, 32, 133, 160})"

definition is_digit :: "char \<Rightarrow> bool" where
  "is_digit c = (48 \<le> (of_char c :: nat) \<and> (of_char c :: nat) \<le> 57)"

definition digit_value :: "char \<Rightarrow> nat" where
  "digit_value c = of_char c - 48"

fun parse_digits :: "nat \<Rightarrow> string \<Rightarrow> nat option" where
  \<comment> \<open>the digits after the first one; a single underscore may stand between two digits\<close>
  "parse_digits acc [] = Some acc"
| "parse_digits acc [c] =
     (if is_digit c then Some (10 * acc + digit_value c) else None)"
| "parse_digits acc (c # d # ds) =
     (if is_digit c then parse_digits (10 * acc + digit_value c) (d # ds)
      else if c = CHR ''_'' \<and> is_digit d then parse_digits (10 * acc + digit_value d) ds
      else None)"

definition strip_space :: "string \<Rightarrow> string" where
  "strip_space s = rev (dropWhile is_space (rev (dropWhile is_space s)))"

definition py_int :: "string \<Rightarrow> int option" where
  \<comment> \<open>\<^verbatim>\<open>int(s)\<close> in base 10; \<open>None\<close> is \<^verbatim>\<open>ValueError\<close>. The interpreter's optional
      cap on the number of digits is not part of the model.\<close>
  "py_int s =
     (case strip_space s of
        [] \<Rightarrow> None
      | c # cs \<Rightarrow>
          (let neg = (c = CHR ''-'');
               body = (if c = CHR ''-'' \<or> c = CHR ''+'' then cs else c # cs)
           in case body of
                [] \<Rightarrow> None
              | d # ds \<Rightarrow>
                  if is_digit d
                  then map_option (\<lambda>n. if neg then - int n else int n)
                         (parse_digits (digit_value d) ds)
                  else None))"

function show_nat :: "nat \<Rightarrow> string" where
  "show_nat n =
     (if n < 10 then [char_of (48 + n)]
      else show_nat (n div 10) @ [char_of (48 + n mod 10)])"
  by pat_completeness auto
termination
  by (relation "measure id") auto

declare show_nat.simps [simp del]

definition py_str :: "int \<Rightarrow> string" where
  \<comment> \<open>\<^verbatim>\<open>str(i)\<close>, which is what \<^verbatim>\<open>f"{i}"\<close> formats\<close>
  "py_str i = (if i < 0 then CHR ''-'' # show_nat (nat (- i)) else show_nat (nat i))"

definition join_step :: "string \<Rightarrow> string \<Rightarrow> string" where
  \<comment> \<open>one round of the loop of \<^verbatim>\<open>posixpath.join\<close>\<close>
  "join_step path b =
     (if take 1 b = ''/'' then b
      else if path = [] \<or> last path = CHR ''/'' then path @ b
      else path @ ''/'' @ b)"

definition os_path_join :: "string \<Rightarrow> string list \<Rightarrow> string" where
  "os_path_join a p = foldl join_step a p"

fun str_join :: "string \<Rightarrow> string list \<Rightarrow> string" where
  \<comment> \<open>\<^verbatim>\<open>sep.join(xs)\<close>\<close>
  "str_join sep [] = []"
| "str_join sep [x] = x"
| "str_join sep (x # y # ys) = x @ sep @ str_join sep (y # ys)"

subsection \<open>Exceptions, the environment, traces\<close>

datatype exn_class = ValueError | FileNotFoundError | RuntimeError | OtherError

datatype exn = Exn exn_class string
  \<comment> \<open>the class \<^verbatim>\<open>except\<close> clauses match on, and \<^verbatim>\<open>str(e)\<close>\<close>

record env =
  script_dir :: string
    \<comment> \<open>\<^verbatim>\<open>os.path.dirname(os.path.abspath(__file__))\<close>\<close>
  path_exists :: "string \<Rightarrow> bool"
    \<comment> \<open>\<^verbatim>\<open>os.path.exists\<close>\<close>
  file_open :: "string \<Rightarrow> exn + string"
    \<comment> \<open>\<^verbatim>\<open>open(p, 'r')\<close> followed by \<^verbatim>\<open>read()\<close>: the text, or what was raised\<close>
  transpile :: "string \<Rightarrow> string + string list"
    \<comment> \<open>\<^verbatim>\<open>sqlglot.transpile(q, read="duckdb", write="spark", pretty=True)\<close>: the
        statements, or \<^verbatim>\<open>str(e)\<close> of the exception\<close>
  session_create :: "string option"
    \<comment> \<open>\<^verbatim>\<open>SparkSession.builder ... getOrCreate()\<close>: \<open>None\<close> when a session comes
        back, \<^verbatim>\<open>str(e)\<close> of the exception otherwise\<close>
  spark_sql :: "string \<Rightarrow> string option"
    \<comment> \<open>\<^verbatim>\<open>spark.sql\<close> on the \<^verbatim>\<open>CREATE TABLE IF NOT EXISTS\<close> statement of the named
        table: \<open>None\<close> when it returns, \<^verbatim>\<open>str(e)\<close> otherwise\<close>
  explain :: "string \<Rightarrow> string + string"
    \<comment> \<open>\<^verbatim>\<open>spark.sql(query)\<close> and \<^verbatim>\<open>explainString\<close> in extended mode: the plan
        text, or \<^verbatim>\<open>str(e)\<close>\<close>

datatype action =
    Print string
  | PathExists string
  | FileOpen string
  | Transpile string
  | SessionStarted
  | SessionFailed
  | CreateTable string
  | Explain string
  | SessionStop

datatype status = Exit nat | Uncaught exn
  \<comment> \<open>\<open>Exit n\<close>: \<^verbatim>\<open>sys.exit(n)\<close>, or \<open>0\<close> when \<^verbatim>\<open>main\<close> returns. \<open>Uncaught\<close>: an
      exception leaves \<^verbatim>\<open>main\<close>; the interpreter prints the traceback on stderr\<close>

fun exit_code :: "status \<Rightarrow> nat" where
  "exit_code (Exit n) = n"
| "exit_code (Uncaught e) = 1"

fun stdout :: "action list \<Rightarrow> string list" where
  "stdout [] = []"
| "stdout (Print s # t) = s # stdout t"
| "stdout (a # t) = stdout t"

fun fs_access :: "action \<Rightarrow> bool" where
  "fs_access (PathExists p) = True"
| "fs_access (FileOpen p) = True"
| "fs_access a = False"

fun session_live :: "bool \<Rightarrow> action list \<Rightarrow> bool" where
  \<comment> \<open>whether a Spark session is running after the trace, given whether one was before\<close>
  "session_live l [] = l"
| "session_live l (SessionStarted # t) = session_live True t"
| "session_live l (SessionStop # t) = session_live False t"
| "session_live l (a # t) = session_live l t"

subsection \<open>The functions of the script\<close>

definition get_query_path :: "env \<Rightarrow> string \<Rightarrow> int \<Rightarrow> exn + string" where
  "get_query_path e benchmark query_number =
     (if benchmark = ''tpc-h''
      then Inr (os_path_join (script_dir e)
                  [''queries-tpc-h'', py_str query_number @ ''.sql''])
      else if benchmark = ''tpc-ds''
      then Inr (os_path_join (script_dir e)
                  [''queries-tpc-ds'', ''query'' @ py_str query_number @ ''.sql''])
      else Inl (Exn ValueError
                  (''Unknown benchmark: '' @ benchmark @ ''. Use '' @ quoted ''tpc-h''
                     @ '' or '' @ quoted ''tpc-ds'' @ ''.'')))"

definition read_query :: "env \<Rightarrow> string \<Rightarrow> (exn + string) \<times> action list" where
  "read_query e filepath =
     (if \<not> path_exists e filepath
      then (Inl (Exn FileNotFoundError (''Query file not found: '' @ filepath)),
            [PathExists filepath])
      else (file_open e filepath, [PathExists filepath, FileOpen filepath]))"

definition translate_to_spark :: "env \<Rightarrow> string \<Rightarrow> (exn + string) \<times> action list" where
  "translate_to_spark e query =
     (case transpile e query of
        Inr translated \<Rightarrow> (Inr (str_join [CHR 0x0A] translated), [Transpile query])
      | Inl msg \<Rightarrow>
          (Inl (Exn RuntimeError (''Failed to translate query: '' @ msg)),
           [Transpile query]))"

definition get_physical_plan :: "env \<Rightarrow> string \<Rightarrow> (exn + string) \<times> action list" where
  "get_physical_plan e query =
     (case explain e query of
        Inr plan \<Rightarrow> (Inr plan, [Explain query])
      | Inl msg \<Rightarrow>
          (Inl (Exn RuntimeError (''Failed to get physical plan: '' @ msg)),
           [Explain query]))"

definition create_spark_session :: "env \<Rightarrow> string option \<times> action list" where
  "create_spark_session e =
     (case session_create e of
        None \<Rightarrow> (None, [SessionStarted])
      | Some msg \<Rightarrow> (Some msg, [SessionFailed]))"

fun spark_sql_all :: "env \<Rightarrow> string list \<Rightarrow> string option \<times> action list" where
  \<comment> \<open>consecutive \<^verbatim>\<open>spark.sql\<close> statements: the first one that raises ends the run\<close>
  "spark_sql_all e [] = (None, [])"
| "spark_sql_all e (t # ts) =
     (case spark_sql e t of
        Some msg \<Rightarrow> (Some msg, [CreateTable t])
      | None \<Rightarrow> (case spark_sql_all e ts of (r, tr) \<Rightarrow> (r, CreateTable t # tr)))"

definition tpc_h_tables :: "string list" where
  "tpc_h_tables =
     [''nation'', ''region'', ''part'', ''supplier'', ''partsupp'', ''customer'',
      ''orders'', ''lineitem'']"

definition tpc_ds_tables :: "string list" where
  "tpc_ds_tables =
     [''store_sales'', ''store_returns'', ''catalog_sales'', ''catalog_returns'',
      ''web_sales'', ''web_returns'', ''inventory'', ''store'', ''customer'',
      ''customer_address'', ''customer_demographics'', ''date_dim'',
      ''household_demographics'', ''item'', ''promotion'', ''time_dim'', ''warehouse'',
      ''web_site'', ''web_page'', ''catalog_page'', ''call_center'', ''income_band'',
      ''reason'', ''ship_mode'']"

definition create_tpc_h_tables :: "env \<Rightarrow> string option \<times> action list" where
  \<comment> \<open>the statements are told apart by their table; the column lists play no part here\<close>
  "create_tpc_h_tables e = spark_sql_all e tpc_h_tables"

definition create_tpc_ds_tables :: "env \<Rightarrow> string option \<times> action list" where
  "create_tpc_ds_tables e = spark_sql_all e tpc_ds_tables"

subsection \<open>\<^verbatim>\<open>main\<close>\<close>

definition module_doc :: string where
  "module_doc = str_join [CHR 0x0A]
     ['''',
      ''Script to translate TPC-H/TPC-DS queries to Spark SQL and print their physical plans.'',
      '''',
      ''Usage:'',
      ''    python explain_query.py <benchmark> <query_number>'',
      ''    '',
      ''Arguments:'',
      ''    benchmark: '' @ quoted ''tpc-h'' @ '' or '' @ quoted ''tpc-ds'',
      ''    query_number: The query number to explain'',
      '''',
      ''Example:'',
      ''    python explain_query.py tpc-h 1'',
      ''    python explain_query.py tpc-ds 42'',
      '''']"

definition bar :: string where
  "bar = replicate 60 (CHR ''='')"

definition banner :: string where
  "banner = CHR 0x0A # bar"

definition main_args :: "string list \<Rightarrow> (status \<times> action list) + (string \<times> int)" where
  \<comment> \<open>the checks of the command line, up to the test of the benchmark: the run ends
      here, or goes on with \<^verbatim>\<open>benchmark\<close> and \<^verbatim>\<open>query_number\<close>\<close>
  "main_args argv =
     (if length argv \<noteq> 3 then Inl (Exit 1, [Print module_doc])
      else
        let benchmark = py_lower (argv ! 1)
        in case py_int (argv ! 2) of
             None \<Rightarrow>
               Inl (Exit 1,
                    [Print (''Error: Query number must be an integer, got ''
                              @ quoted (argv ! 2))])
           | Some query_number \<Rightarrow>
               if benchmark \<notin> set [''tpc-h'', ''tpc-ds'']
               then Inl (Exit 1,
                         [Print (''Error: Benchmark must be '' @ quoted ''tpc-h'' @ '' or ''
                                   @ quoted ''tpc-ds'' @ '', got '' @ quoted benchmark)])
               else Inr (benchmark, query_number))"

definition main_query :: "env \<Rightarrow> string \<Rightarrow> int \<Rightarrow> (status + string) \<times> action list" where
  \<comment> \<open>from the call of \<^verbatim>\<open>get_query_path\<close> to the printed translation: the run ends here,
      or goes on with \<^verbatim>\<open>spark_query\<close>\<close>
  "main_query e benchmark query_number =
     (case get_query_path e benchmark query_number of
        Inl ex \<Rightarrow> (Inl (Uncaught ex), [])
      | Inr query_path \<Rightarrow>
          (let t1 = [Print (''Reading query from: '' @ query_path)]
           in (case read_query e query_path of
                 (Inl (Exn c msg), t2) \<Rightarrow>
                   (if c = FileNotFoundError
                    then (Inl (Exit 1), t1 @ t2 @ [Print (''Error: '' @ msg)])
                    else (Inl (Uncaught (Exn c msg)), t1 @ t2))
               | (Inr original_query, t2) \<Rightarrow>
                   (let t3 = [Print banner, Print ''ORIGINAL QUERY:'', Print bar,
                              Print original_query,
                              Print banner, Print ''TRANSLATED TO SPARK SQL:'', Print bar]
                    in (case translate_to_spark e original_query of
                          (Inl (Exn c msg), t4) \<Rightarrow>
                            (if c = RuntimeError
                             then (Inl (Exit 1),
                                   t1 @ t2 @ t3 @ t4 @ [Print (''Error: '' @ msg)])
                             else (Inl (Uncaught (Exn c msg)), t1 @ t2 @ t3 @ t4))
                        | (Inr spark_query, t4) \<Rightarrow>
                            (Inr spark_query,
                             t1 @ t2 @ t3 @ t4 @ [Print spark_query]))))))"

definition main_plan_try :: "env \<Rightarrow> string \<Rightarrow> string \<Rightarrow> bool \<times> string option \<times> action list" where
  \<comment> \<open>the body of the \<^verbatim>\<open>try\<close>: whether \<^verbatim>\<open>spark\<close> was assigned, \<^verbatim>\<open>str(e)\<close> of the
      exception that ended the body if one did, and the trace\<close>
  "main_plan_try e benchmark spark_query =
     (case create_spark_session e of
        (Some msg, t1) \<Rightarrow> (False, Some msg, t1)
      | (None, t1) \<Rightarrow>
          (case (if benchmark = ''tpc-h'' then create_tpc_h_tables e
                 else create_tpc_ds_tables e) of
             (Some msg, t2) \<Rightarrow> (True, Some msg, t1 @ t2)
           | (None, t2) \<Rightarrow>
               (case get_physical_plan e spark_query of
                  (Inl (Exn c msg), t3) \<Rightarrow> (True, Some msg, t1 @ t2 @ t3)
                | (Inr plan, t3) \<Rightarrow> (True, None, t1 @ t2 @ t3 @ [Print plan]))))"

definition main_plan :: "env \<Rightarrow> string \<Rightarrow> string \<Rightarrow> status \<times> action list" where
  \<comment> \<open>the last section: header, \<^verbatim>\<open>try\<close>, then the \<^verbatim>\<open>except\<close> clause when the body
      raised, then the \<^verbatim>\<open>finally\<close> clause, which runs also under \<^verbatim>\<open>sys.exit\<close>\<close>
  "main_plan e benchmark spark_query =
     (let t0 = [Print banner, Print ''SPARK PHYSICAL PLAN:'', Print bar]
      in case main_plan_try e benchmark spark_query of
           (spark, raised, t1) \<Rightarrow>
             let handler = (case raised of
                              None \<Rightarrow> (Exit 0, [])
                            | Some msg \<Rightarrow>
                                (Exit 1, [Print (''Error getting physical plan: '' @ msg)]));
                 finally = (if spark then [SessionStop] else [])
             in (fst handler, t0 @ t1 @ snd handler @ finally))"

definition main :: "env \<Rightarrow> string list \<Rightarrow> status \<times> action list" where
  "main e argv =
     (case main_args argv of
        Inl r \<Rightarrow> r
      | Inr (benchmark, query_number) \<Rightarrow>
          (case main_query e benchmark query_number of
             (Inl st, t) \<Rightarrow> (st, t)
           | (Inr spark_query, t) \<Rightarrow>
               (case main_plan e benchmark spark_query of
                  (st, t') \<Rightarrow> (st, t @ t'))))"

subsection \<open>Concrete environments\<close>

definition repo_env :: env where
  \<comment> \<open>a checkout in \<^verbatim>\<open>/repo\<close> that holds query 1 of TPC-H; every service works\<close>
  "repo_env =
     \<lparr> script_dir = ''/repo'',
       path_exists = (\<lambda>p. p = ''/repo/queries-tpc-h/1.sql''),
       file_open = (\<lambda>p. if p = ''/repo/queries-tpc-h/1.sql'' then Inr ''select 1''
                        else Inl (Exn FileNotFoundError ''[Errno 2]'')),
       transpile = (\<lambda>q. Inr [''SELECT'', ''  1'']),
       session_create = None,
       spark_sql = (\<lambda>t. None),
       explain = (\<lambda>q. Inr ''== Physical Plan =='') \<rparr>"

definition broken_env :: env where
  \<comment> \<open>the same checkout, with a Spark that rejects the query\<close>
  "broken_env = repo_env \<lparr> explain := (\<lambda>q. Inl ''ParseException'') \<rparr>"

definition untranslatable_env :: env where
  \<comment> \<open>sqlglot rejects the query\<close>
  "untranslatable_env = repo_env \<lparr> transpile := (\<lambda>q. Inl ''ParseError'') \<rparr>"

definition no_spark_env :: env where
  \<comment> \<open>no Spark session can be created\<close>
  "no_spark_env = repo_env \<lparr> session_create := Some ''Java gateway process exited'' \<rparr>"

definition no_part_env :: env where
  \<comment> \<open>Spark fails on the third table of TPC-H\<close>
  "no_part_env =
     repo_env \<lparr> spark_sql := (\<lambda>t. if t = ''part'' then Some ''AnalysisException'' else None) \<rparr>"

section \<open>Properties\<close>

subsection \<open>Library facts\<close>

lemma lower_char_idem: "lower_char (lower_char c) = lower_char c"
  by (simp add: lower_char_def Let_def)

lemma py_lower_idem: "py_lower (py_lower s) = py_lower s"
  by (simp add: py_lower_def lower_char_idem)

lemma digit_char_of: "(d::nat) < 10 \<Longrightarrow> is_digit (char_of (48 + d))"
  by (simp add: is_digit_def)

lemma show_nat_digits: "show_nat n \<noteq> [] \<and> is_digit (hd (show_nat n))"
proof (induction n rule: show_nat.induct)
  case (1 n)
  show ?case
  proof (cases "n < 10")
    case True
    then show ?thesis by (simp add: show_nat.simps [of n] digit_char_of)
  next
    case False
    with 1 show ?thesis by (simp add: show_nat.simps [of n])
  qed
qed

lemma py_str_first: "py_str i \<noteq> [] \<and> take 1 (py_str i) \<noteq> ''/''"
proof -
  have a: "\<not> is_digit (CHR ''/'')" by (simp add: is_digit_def)
  have "take 1 (show_nat n) \<noteq> ''/''" for n
    using show_nat_digits [of n] a by (cases "show_nat n") auto
  then show ?thesis
    using show_nat_digits by (simp add: py_str_def)
qed

lemma join_two:
  assumes "a \<noteq> []" "take 1 a \<noteq> ''/''" "last a \<noteq> CHR ''/''" "take 1 b \<noteq> ''/''"
  shows "os_path_join d [a, b] = os_path_join d [a @ ''/'' @ b]"
  using assms by (cases a) (auto simp: os_path_join_def join_step_def)

subsection \<open>The path of the query file\<close>

text \<open>
  C4. Joining the script's directory with the benchmark's subdirectory and then with the
  file name, as \<^verbatim>\<open>get_query_path\<close> does, gives the script's directory joined with
  \<^verbatim>\<open>queries-tpc-h/<n>.sql\<close> for \<^verbatim>\<open>tpc-h\<close> and with \<^verbatim>\<open>queries-tpc-ds/query<n>.sql\<close>
  for \<^verbatim>\<open>tpc-ds\<close>, for every integer \<open>n\<close>, written in decimal.
\<close>

theorem get_query_path_templates:
  "get_query_path e ''tpc-h'' n =
     Inr (os_path_join (script_dir e) [''queries-tpc-h/'' @ py_str n @ ''.sql''])
   \<and> get_query_path e ''tpc-ds'' n =
     Inr (os_path_join (script_dir e) [''queries-tpc-ds/query'' @ py_str n @ ''.sql''])"
proof -
  have h: "take 1 (py_str n @ ''.sql'') \<noteq> ''/''"
    using py_str_first [of n] by (cases "py_str n") auto
  have "os_path_join (script_dir e) [''queries-tpc-h'', py_str n @ ''.sql'']
        = os_path_join (script_dir e) [''queries-tpc-h'' @ ''/'' @ (py_str n @ ''.sql'')]"
    by (rule join_two) (use h in simp_all)
  moreover have
    "os_path_join (script_dir e) [''queries-tpc-ds'', ''query'' @ py_str n @ ''.sql'']
     = os_path_join (script_dir e) [''queries-tpc-ds'' @ ''/'' @ (''query'' @ py_str n @ ''.sql'')]"
    by (rule join_two) simp_all
  ultimately show ?thesis by (simp add: get_query_path_def)
qed

theorem get_query_path_templates_witness:
  "get_query_path repo_env ''tpc-h'' 1 = Inr ''/repo/queries-tpc-h/1.sql''
   \<and> get_query_path repo_env ''tpc-ds'' (- 42) = Inr ''/repo/queries-tpc-ds/query-42.sql''"
proof -
  have a: "os_path_join (script_dir repo_env) [''queries-tpc-h/'' @ py_str 1 @ ''.sql'']
           = ''/repo/queries-tpc-h/1.sql''"
    by code_simp
  have b: "os_path_join (script_dir repo_env) [''queries-tpc-ds/query'' @ py_str (- 42) @ ''.sql'']
           = ''/repo/queries-tpc-ds/query-42.sql''"
    by code_simp
  show ?thesis
    using get_query_path_templates [of repo_env 1] get_query_path_templates [of repo_env "- 42"]
    by (simp only: a b)
qed

subsection \<open>The checks of the command line\<close>

lemma main_args_three:
  "main_args [p, b, n] =
     (case py_int n of
        None \<Rightarrow>
          Inl (Exit 1, [Print (''Error: Query number must be an integer, got '' @ quoted n)])
      | Some k \<Rightarrow>
          if py_lower b \<notin> set [''tpc-h'', ''tpc-ds'']
          then Inl (Exit 1,
                    [Print (''Error: Benchmark must be '' @ quoted ''tpc-h'' @ '' or ''
                              @ quoted ''tpc-ds'' @ '', got '' @ quoted (py_lower b))])
          else Inr (py_lower b, k))"
  by (simp add: main_args_def Let_def split: option.splits)

lemma main_args_valid:
  "main_args argv = Inr (bm, k) \<Longrightarrow> bm = ''tpc-h'' \<or> bm = ''tpc-ds''"
  by (auto simp: main_args_def Let_def split: if_splits option.splits)

lemma main_rejects_number:
  "py_int n = None \<Longrightarrow>
   main e [p, b, n] =
     (Exit 1, [Print (''Error: Query number must be an integer, got '' @ quoted n)])"
  by (simp add: main_def main_args_three)

lemma main_rejects_benchmark:
  "py_int n = Some k \<Longrightarrow> py_lower b \<notin> set [''tpc-h'', ''tpc-ds''] \<Longrightarrow>
   main e [p, b, n] =
     (Exit 1, [Print (''Error: Benchmark must be '' @ quoted ''tpc-h'' @ '' or ''
                        @ quoted ''tpc-ds'' @ '', got '' @ quoted (py_lower b))])"
  by (simp add: main_def main_args_three)

lemma main_accepts:
  "py_int n = Some k \<Longrightarrow> py_lower b \<in> set [''tpc-h'', ''tpc-ds''] \<Longrightarrow>
   main e [p, b, n] =
     (case main_query e (py_lower b) k of
        (Inl st, t) \<Rightarrow> (st, t)
      | (Inr spark_query, t) \<Rightarrow>
          (case main_plan e (py_lower b) spark_query of (st, t') \<Rightarrow> (st, t @ t')))"
  by (simp add: main_def main_args_three)

text \<open>
  C9. The benchmark is matched without regard to case: \<^verbatim>\<open>main\<close> lowercases its first
  argument before the test and before the path is built, so a run on \<open>b\<close> is the run on
  \<open>b\<close> in lower case; \<^verbatim>\<open>TPC-H\<close> and \<^verbatim>\<open>Tpc-Ds\<close> run as \<^verbatim>\<open>tpc-h\<close> and \<^verbatim>\<open>tpc-ds\<close> do.
\<close>

theorem benchmark_case_insensitive:
  "main e [p, b, n] = main e [p, py_lower b, n]
   \<and> main e [p, ''TPC-H'', n] = main e [p, ''tpc-h'', n]
   \<and> main e [p, ''Tpc-Ds'', n] = main e [p, ''tpc-ds'', n]"
proof -
  have a: "main_args [p, x, n] = main_args [p, py_lower x, n]" for x
    by (simp only: main_args_three py_lower_idem)
  have b: "py_lower ''TPC-H'' = ''tpc-h''" "py_lower ''Tpc-Ds'' = ''tpc-ds''"
    by code_simp+
  have c: "main e [p, x, n] = main e [p, py_lower x, n]" for x
    unfolding main_def by (simp only: a [of x])
  show ?thesis using c [of b] c [of "''TPC-H''"] c [of "''Tpc-Ds''"] by (simp only: b)
qed

theorem benchmark_case_insensitive_witness:
  "main repo_env [''prog'', ''TPC-H'', ''1''] = main repo_env [''prog'', ''tpc-h'', ''1'']
   \<and> fst (main repo_env [''prog'', ''tpc-h'', ''1'']) = Exit 0"
proof -
  have "fst (main repo_env [''prog'', ''tpc-h'', ''1'']) = Exit 0" by code_simp
  then show ?thesis
    using benchmark_case_insensitive [of repo_env "''prog''" "''TPC-H''" "''1''"] by blast
qed

text \<open>
  C10. When the checks of the command line let a run through to the call of
  \<^verbatim>\<open>get_query_path\<close>, the benchmark handed over is \<^verbatim>\<open>tpc-h\<close> or \<^verbatim>\<open>tpc-ds\<close>, and the call
  returns a path: its \<^verbatim>\<open>ValueError\<close> branch is not taken.
\<close>

theorem unknown_benchmark_unreachable:
  assumes "main_args argv = Inr (benchmark, query_number)"
  shows "benchmark \<in> set [''tpc-h'', ''tpc-ds'']
         \<and> (\<exists>query_path. get_query_path e benchmark query_number = Inr query_path)"
  using main_args_valid [OF assms] by (auto simp: get_query_path_def)

theorem unknown_benchmark_unreachable_witness:
  "main_args [''prog'', ''TPC-DS'', ''42''] = Inr (''tpc-ds'', 42)
   \<and> (\<exists>query_path. get_query_path repo_env ''tpc-ds'' 42 = Inr query_path)"
proof -
  have a: "main_args [''prog'', ''TPC-DS'', ''42''] = Inr (''tpc-ds'', 42)" by code_simp
  from unknown_benchmark_unreachable [OF a, of repo_env] a show ?thesis by blast
qed

text \<open>
  C3, as amended. The query number is accepted when \<^verbatim>\<open>int()\<close> parses it, zero and
  negative numbers included: the checks then hand it on with the lowercased benchmark.
  A run whose query number does not parse prints the one line naming it, exits with
  status 1 and touches no path.
\<close>

theorem query_number_validation:
  "(py_int n = None \<longrightarrow>
      main e [p, b, n]
        = (Exit 1, [Print (''Error: Query number must be an integer, got '' @ quoted n)])
      \<and> filter fs_access (snd (main e [p, b, n])) = [])
   \<and> (\<forall>k. py_int n = Some k \<longrightarrow> py_lower b \<in> set [''tpc-h'', ''tpc-ds'']
          \<longrightarrow> main_args [p, b, n] = Inr (py_lower b, k))"
  by (simp add: main_rejects_number main_args_three)

theorem query_number_validation_witness:
  "py_int ''abc'' = None
   \<and> main repo_env [''prog'', ''tpc-h'', ''abc'']
       = (Exit 1, [Print (''Error: Query number must be an integer, got '' @ quoted ''abc'')])
   \<and> py_int ''-5'' = Some (- 5)
   \<and> main_args [''prog'', ''tpc-h'', ''-5''] = Inr (''tpc-h'', - 5)"
proof -
  have a: "py_int ''abc'' = None" by code_simp
  have b: "py_int ''-5'' = Some (- 5)" by code_simp
  have c: "py_lower ''tpc-h'' = ''tpc-h''" by code_simp
  have d: "py_lower ''tpc-h'' \<in> set [''tpc-h'', ''tpc-ds'']" by code_simp
  from query_number_validation [of "''abc''" repo_env "''prog''" "''tpc-h''"] a
  have 1: "main repo_env [''prog'', ''tpc-h'', ''abc'']
       = (Exit 1, [Print (''Error: Query number must be an integer, got '' @ quoted ''abc'')])"
    by blast
  from query_number_validation [of "''-5''" repo_env "''prog''" "''tpc-h''"] b d
  have "main_args [''prog'', ''tpc-h'', ''-5''] = Inr (py_lower ''tpc-h'', - 5)"
    by blast
  then have 2: "main_args [''prog'', ''tpc-h'', ''-5''] = Inr (''tpc-h'', - 5)"
    by (simp only: c)
  from a b 1 2 show ?thesis by blast
qed

text \<open>
  The claim as first stated asks for a positive integer. The arguments \<^verbatim>\<open>0\<close> and
  \<^verbatim>\<open>-5\<close> pass the checks, and the run goes on to test whether the file exists.
\<close>

theorem query_number_counterexample:
  "py_int ''0'' = Some 0
   \<and> filter fs_access (snd (main repo_env [''prog'', ''tpc-h'', ''0'']))
       = [PathExists ''/repo/queries-tpc-h/0.sql'']
   \<and> py_int ''-5'' = Some (- 5)
   \<and> filter fs_access (snd (main repo_env [''prog'', ''tpc-ds'', ''-5'']))
       = [PathExists ''/repo/queries-tpc-ds/query-5.sql'']"
proof -
  have "py_int ''0'' = Some 0" by code_simp
  moreover have "filter fs_access (snd (main repo_env [''prog'', ''tpc-h'', ''0'']))
       = [PathExists ''/repo/queries-tpc-h/0.sql'']" by code_simp
  moreover have "py_int ''-5'' = Some (- 5)" by code_simp
  moreover have "filter fs_access (snd (main repo_env [''prog'', ''tpc-ds'', ''-5'']))
       = [PathExists ''/repo/queries-tpc-ds/query-5.sql'']" by code_simp
  ultimately show ?thesis by blast
qed

text \<open>
  C2, as amended. A run whose lowercased benchmark is neither \<^verbatim>\<open>tpc-h\<close> nor \<^verbatim>\<open>tpc-ds\<close>
  exits with status 1 and touches no path; when the query number parses, the one line it
  prints is the benchmark error, which contains the lowercased benchmark.
\<close>

theorem bad_benchmark_rejected:
  assumes "py_lower b \<notin> set [''tpc-h'', ''tpc-ds'']"
  shows "exit_code (fst (main e [p, b, n])) = 1
         \<and> filter fs_access (snd (main e [p, b, n])) = []
         \<and> (py_int n \<noteq> None \<longrightarrow>
              stdout (snd (main e [p, b, n]))
                = [''Error: Benchmark must be '' @ quoted ''tpc-h'' @ '' or ''
                     @ quoted ''tpc-ds'' @ '', got '' @ quoted (py_lower b)]
              \<and> sublist (py_lower b)
                  (''Error: Benchmark must be '' @ quoted ''tpc-h'' @ '' or ''
                     @ quoted ''tpc-ds'' @ '', got '' @ quoted (py_lower b)))"
proof (cases "py_int n")
  case None
  then show ?thesis by (simp add: main_rejects_number)
next
  case (Some k)
  have "sublist (py_lower b)
          ((''Error: Benchmark must be '' @ quoted ''tpc-h'' @ '' or ''
             @ quoted ''tpc-ds'' @ '', got '' @ [CHR 0x27]) @ py_lower b @ [CHR 0x27])"
    by (rule sublist_appendI)
  then have "sublist (py_lower b)
          (''Error: Benchmark must be '' @ quoted ''tpc-h'' @ '' or ''
             @ quoted ''tpc-ds'' @ '', got '' @ quoted (py_lower b))"
    by (simp add: quoted_def)
  then show ?thesis
    using Some assms by (simp only: main_rejects_benchmark [OF Some assms]) simp
qed

theorem bad_benchmark_rejected_witness:
  "py_lower ''TPC-X'' \<notin> set [''tpc-h'', ''tpc-ds'']
   \<and> py_int ''1'' \<noteq> None
   \<and> exit_code (fst (main repo_env [''prog'', ''TPC-X'', ''1''])) = 1
   \<and> filter fs_access (snd (main repo_env [''prog'', ''TPC-X'', ''1''])) = []
   \<and> stdout (snd (main repo_env [''prog'', ''TPC-X'', ''1'']))
       = [''Error: Benchmark must be '' @ quoted ''tpc-h'' @ '' or ''
            @ quoted ''tpc-ds'' @ '', got '' @ quoted ''tpc-x'']"
proof -
  have a: "py_lower ''TPC-X'' \<notin> set [''tpc-h'', ''tpc-ds'']" by code_simp
  have b: "py_int ''1'' \<noteq> None" by code_simp
  have c: "py_lower ''TPC-X'' = ''tpc-x''" by code_simp
  from bad_benchmark_rejected [OF a, of repo_env "''prog''" "''1''"] a b
  show ?thesis by (simp only: c) blast
qed

text \<open>
  The claim as first stated promises the benchmark in the message for every such run.
  The query number is checked first: with \<^verbatim>\<open>tpc-x\<close> and \<^verbatim>\<open>abc\<close> the only line printed
  names \<^verbatim>\<open>abc\<close>, and \<^verbatim>\<open>tpc-x\<close> occurs nowhere in it.
\<close>

theorem bad_benchmark_counterexample:
  "py_lower ''tpc-x'' \<notin> set [''tpc-h'', ''tpc-ds'']
   \<and> stdout (snd (main repo_env [''prog'', ''tpc-x'', ''abc'']))
       = [''Error: Query number must be an integer, got '' @ quoted ''abc'']
   \<and> \<not> sublist ''tpc-x'' (''Error: Query number must be an integer, got '' @ quoted ''abc'')"
proof -
  have "py_lower ''tpc-x'' \<notin> set [''tpc-h'', ''tpc-ds'']" by code_simp
  moreover have "stdout (snd (main repo_env [''prog'', ''tpc-x'', ''abc'']))
       = [''Error: Query number must be an integer, got '' @ quoted ''abc'']" by code_simp
  moreover have
    "\<not> sublist ''tpc-x'' (''Error: Query number must be an integer, got '' @ quoted ''abc'')"
    by code_simp
  ultimately show ?thesis by blast
qed

subsection \<open>Reading and translating the query\<close>

lemma main_query_missing:
  "get_query_path e bm k = Inr path \<Longrightarrow> \<not> path_exists e path \<Longrightarrow>
   main_query e bm k =
     (Inl (Exit 1),
      [Print (''Reading query from: '' @ path), PathExists path,
       Print (''Error: Query file not found: '' @ path)])"
  by (simp add: main_query_def read_query_def)

lemma main_query_untranslated:
  "get_query_path e bm k = Inr path \<Longrightarrow> path_exists e path \<Longrightarrow>
   file_open e path = Inr q \<Longrightarrow> transpile e q = Inl msg \<Longrightarrow>
   main_query e bm k =
     (Inl (Exit 1),
      [Print (''Reading query from: '' @ path), PathExists path, FileOpen path,
       Print banner, Print ''ORIGINAL QUERY:'', Print bar, Print q,
       Print banner, Print ''TRANSLATED TO SPARK SQL:'', Print bar, Transpile q,
       Print (''Error: Failed to translate query: '' @ msg)])"
  by (simp add: main_query_def read_query_def translate_to_spark_def)

lemma main_query_translated:
  "get_query_path e bm k = Inr path \<Longrightarrow> path_exists e path \<Longrightarrow>
   file_open e path = Inr q \<Longrightarrow> transpile e q = Inr stmts \<Longrightarrow>
   main_query e bm k =
     (Inr (str_join [CHR 0x0A] stmts),
      [Print (''Reading query from: '' @ path), PathExists path, FileOpen path,
       Print banner, Print ''ORIGINAL QUERY:'', Print bar, Print q,
       Print banner, Print ''TRANSLATED TO SPARK SQL:'', Print bar, Transpile q,
       Print (str_join [CHR 0x0A] stmts)])"
  by (simp add: main_query_def read_query_def translate_to_spark_def)

lemma stdout_append: "stdout (t @ u) = stdout t @ stdout u"
  by (induction t rule: stdout.induct) simp_all

lemma stdout_tables: "stdout (map CreateTable ts) = []"
  by (induction ts) simp_all

text \<open>
  C5. With a recognised benchmark and a query number that parses, a run whose query
  file does not exist exits with status 1, and after the line announcing the path it
  prints \<^verbatim>\<open>Error: Query file not found:\<close> followed by the path it built.
\<close>

theorem missing_file_reported:
  assumes "py_int n = Some k" and "py_lower b \<in> set [''tpc-h'', ''tpc-ds'']"
    and "get_query_path e (py_lower b) k = Inr path" and "\<not> path_exists e path"
  shows "exit_code (fst (main e [p, b, n])) = 1
         \<and> stdout (snd (main e [p, b, n]))
             = [''Reading query from: '' @ path, ''Error: Query file not found: '' @ path]
         \<and> sublist path (''Error: Query file not found: '' @ path)"
proof -
  have "main e [p, b, n] =
          (Exit 1, [Print (''Reading query from: '' @ path), PathExists path,
                    Print (''Error: Query file not found: '' @ path)])"
    by (simp only: main_accepts [OF assms(1,2)] main_query_missing [OF assms(3,4)]
          prod.case sum.case)
  moreover have "sublist path (''Error: Query file not found: '' @ path)"
    by (rule sublist_append_leftI)
  ultimately show ?thesis by simp
qed

theorem missing_file_reported_witness:
  "py_int ''99'' = Some 99 \<and> py_lower ''tpc-h'' \<in> set [''tpc-h'', ''tpc-ds'']
   \<and> get_query_path repo_env (py_lower ''tpc-h'') 99 = Inr ''/repo/queries-tpc-h/99.sql''
   \<and> \<not> path_exists repo_env ''/repo/queries-tpc-h/99.sql''
   \<and> exit_code (fst (main repo_env [''prog'', ''tpc-h'', ''99''])) = 1
   \<and> stdout (snd (main repo_env [''prog'', ''tpc-h'', ''99'']))
       = [''Reading query from: '' @ ''/repo/queries-tpc-h/99.sql'',
          ''Error: Query file not found: '' @ ''/repo/queries-tpc-h/99.sql'']"
proof -
  have a: "py_int ''99'' = Some 99" by code_simp
  have b: "py_lower ''tpc-h'' \<in> set [''tpc-h'', ''tpc-ds'']" by code_simp
  have c: "get_query_path repo_env (py_lower ''tpc-h'') 99 = Inr ''/repo/queries-tpc-h/99.sql''"
    by code_simp
  have d: "\<not> path_exists repo_env ''/repo/queries-tpc-h/99.sql''" by code_simp
  from missing_file_reported [OF a b c d, of "''prog''"] a b c d show ?thesis by blast
qed





subsection \<open>The Spark session\<close>

lemma live_append: "session_live l (t @ u) = session_live (session_live l t) u"
  by (induction l t rule: session_live.induct) simp_all

lemma live_quiet:
  "SessionStarted \<notin> set t \<Longrightarrow> SessionStop \<notin> set t \<Longrightarrow> session_live l t = l"
  by (induction l t rule: session_live.induct) simp_all

lemma spark_sql_all_trace:
  "a \<in> set (snd (spark_sql_all e ts)) \<Longrightarrow> \<exists>t. a = CreateTable t"
  by (induction ts) (auto split: option.splits prod.splits)

lemma spark_sql_all_quiet:
  "SessionStarted \<notin> set (snd (spark_sql_all e ts))
   \<and> SessionStop \<notin> set (snd (spark_sql_all e ts))"
  using spark_sql_all_trace by blast

lemma spark_sql_all_ok:
  "\<forall>t \<in> set ts. spark_sql e t = None \<Longrightarrow> spark_sql_all e ts = (None, map CreateTable ts)"
  by (induction ts) simp_all

lemma main_query_quiet:
  "SessionStarted \<notin> set (snd (main_query e bm k))
   \<and> SessionStop \<notin> set (snd (main_query e bm k))"
  by (simp add: main_query_def read_query_def translate_to_spark_def Let_def
        split: sum.splits exn.splits prod.splits)

lemma main_plan_try_shape:
  "main_plan_try e bm sq = (spark, raised, t) \<Longrightarrow>
     (if spark
      then \<exists>u. t = SessionStarted # u \<and> SessionStarted \<notin> set u \<and> SessionStop \<notin> set u
      else t = [SessionFailed])"
  using spark_sql_all_quiet [of e tpc_h_tables] spark_sql_all_quiet [of e tpc_ds_tables]
  by (auto simp: main_plan_try_def create_spark_session_def get_physical_plan_def
        create_tpc_h_tables_def create_tpc_ds_tables_def
        split: sum.splits exn.splits prod.splits option.splits if_splits)

lemma main_plan_shape:
  "\<exists>q u. SessionStarted \<notin> set q \<and> SessionStop \<notin> set q
        \<and> SessionStarted \<notin> set u \<and> SessionStop \<notin> set u
        \<and> (snd (main_plan e bm sq) = q
             \<or> snd (main_plan e bm sq) = q @ SessionStarted # u @ [SessionStop])"
proof -
  obtain spark raised t where tr: "main_plan_try e bm sq = (spark, raised, t)"
    by (cases "main_plan_try e bm sq") auto
  let ?h = "[Print banner, Print ''SPARK PHYSICAL PLAN:'', Print bar]"
  let ?x = "case raised of None \<Rightarrow> []
            | Some msg \<Rightarrow> [Print (''Error getting physical plan: '' @ msg)]"
  have xq: "SessionStarted \<notin> set ?x \<and> SessionStop \<notin> set ?x"
    by (simp split: option.splits)
  show ?thesis
  proof (cases spark)
    case True
    with main_plan_try_shape [OF tr] obtain u
      where u: "t = SessionStarted # u" "SessionStarted \<notin> set u" "SessionStop \<notin> set u"
      by auto
    have "snd (main_plan e bm sq) = ?h @ SessionStarted # (u @ ?x) @ [SessionStop]"
      using tr True u by (simp add: main_plan_def split: option.splits)
    moreover have "SessionStarted \<notin> set (u @ ?x) \<and> SessionStop \<notin> set (u @ ?x)"
      using u xq by simp
    moreover have "SessionStarted \<notin> set ?h \<and> SessionStop \<notin> set ?h" by simp
    ultimately show ?thesis by blast
  next
    case False
    with main_plan_try_shape [OF tr] have "t = [SessionFailed]" by simp
    then have "snd (main_plan e bm sq) = ?h @ SessionFailed # ?x"
      using tr False by (simp add: main_plan_def split: option.splits)
    moreover have "SessionStarted \<notin> set (?h @ SessionFailed # ?x)
                   \<and> SessionStop \<notin> set (?h @ SessionFailed # ?x)"
      using xq by simp
    ultimately show ?thesis by metis
  qed
qed

lemma main_shape:
  "\<exists>q u. SessionStarted \<notin> set q \<and> SessionStop \<notin> set q
        \<and> SessionStarted \<notin> set u \<and> SessionStop \<notin> set u
        \<and> (snd (main e argv) = q
             \<or> snd (main e argv) = q @ SessionStarted # u @ [SessionStop])"
proof (cases "main_args argv")
  case (Inl r)
  then have "snd (main e argv) = snd r" by (simp add: main_def)
  moreover have "SessionStarted \<notin> set (snd r) \<and> SessionStop \<notin> set (snd r)"
    using Inl by (auto simp: main_args_def Let_def split: if_splits option.splits)
  ultimately show ?thesis by metis
next
  case (Inr bk)
  obtain bm k where bk: "bk = (bm, k)" by (cases bk) auto
  obtain r t where mq: "main_query e bm k = (r, t)" by (cases "main_query e bm k") auto
  have tq: "SessionStarted \<notin> set t \<and> SessionStop \<notin> set t"
    using main_query_quiet [of e bm k] mq by simp
  show ?thesis
  proof (cases r)
    case (Inl st)
    then have "snd (main e argv) = t" using Inr bk mq by (simp add: main_def)
    with tq show ?thesis by metis
  next
    case (Inr sq)
    then have m: "snd (main e argv) = t @ snd (main_plan e bm sq)"
      using \<open>main_args argv = Inr bk\<close> bk mq by (simp add: main_def split: prod.splits)
    from main_plan_shape [of e bm sq] obtain q u where
      qu: "SessionStarted \<notin> set q" "SessionStop \<notin> set q"
          "SessionStarted \<notin> set u" "SessionStop \<notin> set u"
          "snd (main_plan e bm sq) = q
           \<or> snd (main_plan e bm sq) = q @ SessionStarted # u @ [SessionStop]"
      by blast
    have tqq: "SessionStarted \<notin> set (t @ q) \<and> SessionStop \<notin> set (t @ q)"
      using tq qu by simp
    from qu(5) have "snd (main e argv) = t @ q
        \<or> snd (main e argv) = (t @ q) @ SessionStarted # u @ [SessionStop]"
      using m by auto
    with tqq qu(3,4) show ?thesis by blast
  qed
qed

text \<open>
  C1. No run ends with a running Spark session: after the whole trace of \<^verbatim>\<open>main\<close> no
  session is live, and whenever a session was started (also when the tables or the plan
  then failed) the last thing the run does is \<^verbatim>\<open>spark.stop()\<close>.
\<close>

theorem session_always_stopped:
  "\<not> session_live False (snd (main e argv))
   \<and> (SessionStarted \<in> set (snd (main e argv)) \<longrightarrow> last (snd (main e argv)) = SessionStop)"
proof -
  from main_shape [of e argv] obtain q u where
    qu: "SessionStarted \<notin> set q" "SessionStop \<notin> set q"
        "SessionStarted \<notin> set u" "SessionStop \<notin> set u"
        "snd (main e argv) = q \<or> snd (main e argv) = q @ SessionStarted # u @ [SessionStop]"
    by blast
  from qu(5) show ?thesis
  proof
    assume "snd (main e argv) = q"
    then show ?thesis using qu(1,2) by (simp add: live_quiet)
  next
    assume a: "snd (main e argv) = q @ SessionStarted # u @ [SessionStop]"
    then show ?thesis by (simp add: live_append)
  qed
qed

theorem session_always_stopped_witness:
  "SessionStarted \<in> set (snd (main broken_env [''prog'', ''tpc-h'', ''1'']))
   \<and> fst (main broken_env [''prog'', ''tpc-h'', ''1'']) = Exit 1
   \<and> last (snd (main broken_env [''prog'', ''tpc-h'', ''1''])) = SessionStop
   \<and> \<not> session_live False (snd (main broken_env [''prog'', ''tpc-h'', ''1'']))"
proof -
  have a: "SessionStarted \<in> set (snd (main broken_env [''prog'', ''tpc-h'', ''1'']))"
    by code_simp
  have b: "fst (main broken_env [''prog'', ''tpc-h'', ''1'']) = Exit 1"
    by code_simp
  show ?thesis
    using a b session_always_stopped [of broken_env "[''prog'', ''tpc-h'', ''1'']"] by blast
qed

subsection \<open>The plan, and the run as a whole\<close>

lemma create_tables_ok:
  "\<forall>t \<in> set (if bm = ''tpc-h'' then tpc_h_tables else tpc_ds_tables). spark_sql e t = None \<Longrightarrow>
   (if bm = ''tpc-h'' then create_tpc_h_tables e else create_tpc_ds_tables e)
   = (None, map CreateTable (if bm = ''tpc-h'' then tpc_h_tables else tpc_ds_tables))"
  by (simp add: create_tpc_h_tables_def create_tpc_ds_tables_def spark_sql_all_ok)

lemma main_plan_no_session:
  "session_create e = Some msg \<Longrightarrow>
   main_plan e bm sq =
     (Exit 1,
      [Print banner, Print ''SPARK PHYSICAL PLAN:'', Print bar, SessionFailed,
       Print (''Error getting physical plan: '' @ msg)])"
  by (simp add: main_plan_def main_plan_try_def create_spark_session_def)

lemma main_plan_no_table:
  "session_create e = None \<Longrightarrow>
   (if bm = ''tpc-h'' then create_tpc_h_tables e else create_tpc_ds_tables e) = (Some msg, t) \<Longrightarrow>
   main_plan e bm sq =
     (Exit 1,
      [Print banner, Print ''SPARK PHYSICAL PLAN:'', Print bar, SessionStarted] @ t
      @ [Print (''Error getting physical plan: '' @ msg), SessionStop])"
  by (simp add: main_plan_def main_plan_try_def create_spark_session_def)

lemma main_plan_no_plan:
  "session_create e = None \<Longrightarrow>
   \<forall>t \<in> set (if bm = ''tpc-h'' then tpc_h_tables else tpc_ds_tables). spark_sql e t = None \<Longrightarrow>
   explain e sq = Inl msg \<Longrightarrow>
   main_plan e bm sq =
     (Exit 1,
      [Print banner, Print ''SPARK PHYSICAL PLAN:'', Print bar, SessionStarted]
      @ map CreateTable (if bm = ''tpc-h'' then tpc_h_tables else tpc_ds_tables)
      @ [Explain sq,
         Print (''Error getting physical plan: Failed to get physical plan: '' @ msg),
         SessionStop])"
  using create_tables_ok [of bm e]
  by (simp add: main_plan_def main_plan_try_def create_spark_session_def get_physical_plan_def)

lemma main_plan_ok:
  "session_create e = None \<Longrightarrow>
   \<forall>t \<in> set (if bm = ''tpc-h'' then tpc_h_tables else tpc_ds_tables). spark_sql e t = None \<Longrightarrow>
   explain e sq = Inr plan \<Longrightarrow>
   main_plan e bm sq =
     (Exit 0,
      [Print banner, Print ''SPARK PHYSICAL PLAN:'', Print bar, SessionStarted]
      @ map CreateTable (if bm = ''tpc-h'' then tpc_h_tables else tpc_ds_tables)
      @ [Explain sq, Print plan, SessionStop])"
  using create_tables_ok [of bm e]
  by (simp add: main_plan_def main_plan_try_def create_spark_session_def get_physical_plan_def)

lemma main_translated:
  "py_int n = Some k \<Longrightarrow> py_lower b \<in> set [''tpc-h'', ''tpc-ds''] \<Longrightarrow>
   get_query_path e (py_lower b) k = Inr path \<Longrightarrow> path_exists e path \<Longrightarrow>
   file_open e path = Inr q \<Longrightarrow> transpile e q = Inr stmts \<Longrightarrow>
   main e [p, b, n] =
     (fst (main_plan e (py_lower b) (str_join [CHR 0x0A] stmts)),
      [Print (''Reading query from: '' @ path), PathExists path, FileOpen path,
       Print banner, Print ''ORIGINAL QUERY:'', Print bar, Print q,
       Print banner, Print ''TRANSLATED TO SPARK SQL:'', Print bar, Transpile q,
       Print (str_join [CHR 0x0A] stmts)]
      @ snd (main_plan e (py_lower b) (str_join [CHR 0x0A] stmts)))"
  by (simp only: main_accepts main_query_translated prod.case sum.case split: prod.splits) simp

lemma main_planned:
  assumes "py_int n = Some k" and "py_lower b \<in> set [''tpc-h'', ''tpc-ds'']"
    and "get_query_path e (py_lower b) k = Inr path"
    and "path_exists e path" and "file_open e path = Inr q"
    and "transpile e q = Inr stmts"
  shows "main e [p, b, n] =
     (fst (main_plan e (py_lower b) (str_join [CHR 0x0A] stmts)),
      snd (main_query e (py_lower b) k)
      @ snd (main_plan e (py_lower b) (str_join [CHR 0x0A] stmts)))"
  by (simp only: main_translated [OF assms] main_query_translated [OF assms(3-6)] snd_conv)

text \<open>
  C6. A run in which every stage succeeds exits with status 0, and what it prints is,
  in this order: the path after \<^verbatim>\<open>Reading query from:\<close>, the original query under the
  header \<^verbatim>\<open>ORIGINAL QUERY:\<close>, the translation under \<^verbatim>\<open>TRANSLATED TO SPARK SQL:\<close>, and
  the plan under \<^verbatim>\<open>SPARK PHYSICAL PLAN:\<close>.
\<close>

theorem successful_run_output:
  assumes "py_int n = Some k" and "py_lower b \<in> set [''tpc-h'', ''tpc-ds'']"
    and "get_query_path e (py_lower b) k = Inr path"
    and "path_exists e path" and "file_open e path = Inr original_query"
    and "transpile e original_query = Inr translated"
    and "session_create e = None"
    and "\<forall>t \<in> set (if py_lower b = ''tpc-h'' then tpc_h_tables else tpc_ds_tables).
           spark_sql e t = None"
    and "explain e (str_join [CHR 0x0A] translated) = Inr plan"
  shows "fst (main e [p, b, n]) = Exit 0
         \<and> stdout (snd (main e [p, b, n]))
             = [''Reading query from: '' @ path,
                banner, ''ORIGINAL QUERY:'', bar, original_query,
                banner, ''TRANSLATED TO SPARK SQL:'', bar, str_join [CHR 0x0A] translated,
                banner, ''SPARK PHYSICAL PLAN:'', bar, plan]"
  by (simp only: main_translated [OF assms(1-6)] main_plan_ok [OF assms(7-9)])
     (simp add: stdout_append stdout_tables)

theorem successful_run_output_witness:
  "fst (main repo_env [''prog'', ''tpc-h'', ''1'']) = Exit 0
   \<and> stdout (snd (main repo_env [''prog'', ''tpc-h'', ''1'']))
       = [''Reading query from: '' @ ''/repo/queries-tpc-h/1.sql'',
          banner, ''ORIGINAL QUERY:'', bar, ''select 1'',
          banner, ''TRANSLATED TO SPARK SQL:'', bar, str_join [CHR 0x0A] [''SELECT'', ''  1''],
          banner, ''SPARK PHYSICAL PLAN:'', bar, ''== Physical Plan =='']"
proof -
  have a: "py_int ''1'' = Some 1" by code_simp
  have b: "py_lower ''tpc-h'' \<in> set [''tpc-h'', ''tpc-ds'']" by code_simp
  have c: "get_query_path repo_env (py_lower ''tpc-h'') 1 = Inr ''/repo/queries-tpc-h/1.sql''"
    by code_simp
  have d: "path_exists repo_env ''/repo/queries-tpc-h/1.sql''" by code_simp
  have f: "file_open repo_env ''/repo/queries-tpc-h/1.sql'' = Inr ''select 1''" by code_simp
  have g: "transpile repo_env ''select 1'' = Inr [''SELECT'', ''  1'']" by code_simp
  have h: "session_create repo_env = None" by code_simp
  have i: "\<forall>t \<in> set (if py_lower ''tpc-h'' = ''tpc-h'' then tpc_h_tables else tpc_ds_tables).
             spark_sql repo_env t = None"
    by (simp add: repo_env_def)
  have j: "explain repo_env (str_join [CHR 0x0A] [''SELECT'', ''  1'']) = Inr ''== Physical Plan =='' "
    by (simp add: repo_env_def)
  show ?thesis by (rule successful_run_output [OF a b c d f g h i j])
qed

text \<open>
  C8. Every failure ends the run with status 1 right after its message; nothing of a
  later stage happens, and nothing is tried twice. The cases, in program order: a wrong
  number of arguments; a query number that does not parse; an unknown benchmark; a missing
  query file; a failed translation; and, in the last stage, a session that cannot be
  created, a table statement that fails, and a plan that cannot be produced. In the last
  two the session is stopped after the message.
\<close>

theorem failures_abort:
  "(length argv \<noteq> 3 \<longrightarrow> main e argv = (Exit 1, [Print module_doc]))
   \<and> (py_int n = None \<longrightarrow>
        main e [p, b, n]
          = (Exit 1, [Print (''Error: Query number must be an integer, got '' @ quoted n)]))
   \<and> (py_int n = Some k \<longrightarrow>
        (py_lower b \<notin> set [''tpc-h'', ''tpc-ds''] \<longrightarrow>
           main e [p, b, n]
             = (Exit 1, [Print (''Error: Benchmark must be '' @ quoted ''tpc-h'' @ '' or ''
                                  @ quoted ''tpc-ds'' @ '', got '' @ quoted (py_lower b))]))
        \<and> (py_lower b \<in> set [''tpc-h'', ''tpc-ds'']
             \<and> get_query_path e (py_lower b) k = Inr path \<longrightarrow>
             (\<not> path_exists e path \<longrightarrow>
                main e [p, b, n]
                  = (Exit 1, [Print (''Reading query from: '' @ path), PathExists path,
                              Print (''Error: Query file not found: '' @ path)]))
             \<and> (path_exists e path \<and> file_open e path = Inr q \<longrightarrow>
                  (transpile e q = Inl msg \<longrightarrow>
                     main e [p, b, n]
                       = (Exit 1,
                          [Print (''Reading query from: '' @ path), PathExists path,
                           FileOpen path,
                           Print banner, Print ''ORIGINAL QUERY:'', Print bar, Print q,
                           Print banner, Print ''TRANSLATED TO SPARK SQL:'', Print bar,
                           Transpile q,
                           Print (''Error: Failed to translate query: '' @ msg)]))
                  \<and> (transpile e q = Inr stmts \<longrightarrow>
                       (session_create e = Some msg \<longrightarrow>
                          main e [p, b, n]
                            = (Exit 1,
                               snd (main_query e (py_lower b) k)
                               @ [Print banner, Print ''SPARK PHYSICAL PLAN:'', Print bar,
                                  SessionFailed,
                                  Print (''Error getting physical plan: '' @ msg)]))
                       \<and> (session_create e = None
                            \<and> (if py_lower b = ''tpc-h'' then create_tpc_h_tables e
                                else create_tpc_ds_tables e) = (Some msg, t) \<longrightarrow>
                            main e [p, b, n]
                              = (Exit 1,
                                 snd (main_query e (py_lower b) k)
                                 @ [Print banner, Print ''SPARK PHYSICAL PLAN:'', Print bar,
                                    SessionStarted]
                                 @ t
                                 @ [Print (''Error getting physical plan: '' @ msg),
                                    SessionStop]))
                       \<and> (session_create e = None
                            \<and> (\<forall>t \<in> set (if py_lower b = ''tpc-h'' then tpc_h_tables
                                            else tpc_ds_tables). spark_sql e t = None)
                            \<and> explain e (str_join [CHR 0x0A] stmts) = Inl msg \<longrightarrow>
                            main e [p, b, n]
                              = (Exit 1,
                                 snd (main_query e (py_lower b) k)
                                 @ [Print banner, Print ''SPARK PHYSICAL PLAN:'', Print bar,
                                    SessionStarted]
                                 @ map CreateTable (if py_lower b = ''tpc-h'' then tpc_h_tables
                                                    else tpc_ds_tables)
                                 @ [Explain (str_join [CHR 0x0A] stmts),
                                    Print (''Error getting physical plan: ''
                                             @ ''Failed to get physical plan: '' @ msg),
                                    SessionStop]))))))"
  apply (intro conjI impI)
  subgoal by (simp add: main_def main_args_def)
  subgoal by (rule main_rejects_number)
  subgoal by (rule main_rejects_benchmark)
  subgoal by (elim conjE) (simp add: main_accepts main_query_missing)
  subgoal by (elim conjE) (simp only: main_accepts main_query_untranslated prod.case sum.case)
  subgoal by (elim conjE) (simp only: main_planned main_plan_no_session fst_conv snd_conv)
  subgoal by (elim conjE) (simp only: main_planned main_plan_no_table fst_conv snd_conv)
  subgoal
    by (elim conjE)
       (simp only: main_planned main_plan_no_plan fst_conv snd_conv append_assoc append.simps)
  done

theorem failures_abort_witness:
  "main broken_env [''prog'', ''tpc-h''] = (Exit 1, [Print module_doc])
   \<and> main broken_env [''prog'', ''tpc-h'', ''abc'']
       = (Exit 1, [Print (''Error: Query number must be an integer, got '' @ quoted ''abc'')])
   \<and> main broken_env [''prog'', ''tpc-x'', ''1'']
       = (Exit 1, [Print (''Error: Benchmark must be '' @ quoted ''tpc-h'' @ '' or ''
                            @ quoted ''tpc-ds'' @ '', got '' @ quoted (py_lower ''tpc-x''))])
   \<and> main broken_env [''prog'', ''tpc-ds'', ''1'']
       = (Exit 1, [Print (''Reading query from: '' @ ''/repo/queries-tpc-ds/query1.sql''),
                   PathExists ''/repo/queries-tpc-ds/query1.sql'',
                   Print (''Error: Query file not found: ''
                            @ ''/repo/queries-tpc-ds/query1.sql'')])
   \<and> main broken_env [''prog'', ''tpc-h'', ''1'']
       = (Exit 1,
          snd (main_query broken_env (py_lower ''tpc-h'') 1)
          @ [Print banner, Print ''SPARK PHYSICAL PLAN:'', Print bar, SessionStarted]
          @ map CreateTable (if py_lower ''tpc-h'' = ''tpc-h'' then tpc_h_tables
                             else tpc_ds_tables)
          @ [Explain (str_join [CHR 0x0A] [''SELECT'', ''  1'']),
             Print (''Error getting physical plan: ''
                      @ ''Failed to get physical plan: '' @ ''ParseException''),
             SessionStop])
   \<and> main untranslatable_env [''prog'', ''tpc-h'', ''1'']
       = (Exit 1,
          [Print (''Reading query from: '' @ ''/repo/queries-tpc-h/1.sql''),
           PathExists ''/repo/queries-tpc-h/1.sql'', FileOpen ''/repo/queries-tpc-h/1.sql'',
           Print banner, Print ''ORIGINAL QUERY:'', Print bar, Print ''select 1'',
           Print banner, Print ''TRANSLATED TO SPARK SQL:'', Print bar,
           Transpile ''select 1'',
           Print (''Error: Failed to translate query: '' @ ''ParseError'')])
   \<and> main no_spark_env [''prog'', ''tpc-h'', ''1'']
       = (Exit 1,
          snd (main_query no_spark_env (py_lower ''tpc-h'') 1)
          @ [Print banner, Print ''SPARK PHYSICAL PLAN:'', Print bar, SessionFailed,
             Print (''Error getting physical plan: '' @ ''Java gateway process exited'')])
   \<and> main no_part_env [''prog'', ''tpc-h'', ''1'']
       = (Exit 1,
          snd (main_query no_part_env (py_lower ''tpc-h'') 1)
          @ [Print banner, Print ''SPARK PHYSICAL PLAN:'', Print bar, SessionStarted]
          @ [CreateTable ''nation'', CreateTable ''region'', CreateTable ''part'']
          @ [Print (''Error getting physical plan: '' @ ''AnalysisException''), SessionStop])"
proof -
  have n0: "length [''prog'', ''tpc-h''] \<noteq> 3" by simp
  have n1: "py_int ''abc'' = None" by code_simp
  have n2: "py_int ''1'' = Some 1" by code_simp
  have b1: "py_lower ''tpc-x'' \<notin> set [''tpc-h'', ''tpc-ds'']" by code_simp
  have b2: "py_lower ''tpc-ds'' \<in> set [''tpc-h'', ''tpc-ds'']" by code_simp
  have b3: "py_lower ''tpc-h'' \<in> set [''tpc-h'', ''tpc-ds'']" by code_simp
  have p2: "get_query_path broken_env (py_lower ''tpc-ds'') 1
              = Inr ''/repo/queries-tpc-ds/query1.sql''" by code_simp
  have p3: "get_query_path broken_env (py_lower ''tpc-h'') 1
              = Inr ''/repo/queries-tpc-h/1.sql''" by code_simp
  have x2: "\<not> path_exists broken_env ''/repo/queries-tpc-ds/query1.sql''" by code_simp
  have x3: "path_exists broken_env ''/repo/queries-tpc-h/1.sql''" by code_simp
  have f3: "file_open broken_env ''/repo/queries-tpc-h/1.sql'' = Inr ''select 1''"
    by code_simp
  have t3: "transpile broken_env ''select 1'' = Inr [''SELECT'', ''  1'']" by code_simp
  have s3: "session_create broken_env = None" by code_simp
  have c3: "\<forall>t \<in> set (if py_lower ''tpc-h'' = ''tpc-h'' then tpc_h_tables else tpc_ds_tables).
              spark_sql broken_env t = None"
    by (simp add: broken_env_def repo_env_def)
  have e3: "explain broken_env (str_join [CHR 0x0A] [''SELECT'', ''  1''])
              = Inl ''ParseException''"
    by (simp add: broken_env_def repo_env_def)
  note w1 = failures_abort [where argv = "[''prog'', ''tpc-h'']" and e = broken_env
      and n = "''abc''" and p = "''prog''" and b = "''tpc-h''"]
  note w2 = failures_abort [where e = broken_env and n = "''1''" and p = "''prog''"
      and b = "''tpc-x''" and k = 1]
  note w3 = failures_abort [where e = broken_env and n = "''1''" and p = "''prog''"
      and b = "''tpc-ds''" and k = 1 and path = "''/repo/queries-tpc-ds/query1.sql''"]
  note w4 = failures_abort [where e = broken_env and n = "''1''" and p = "''prog''"
      and b = "''tpc-h''" and k = 1 and path = "''/repo/queries-tpc-h/1.sql''"
      and q = "''select 1''" and stmts = "[''SELECT'', ''  1'']" and msg = "''ParseException''"]
  from w1 n0 have r0: "main broken_env [''prog'', ''tpc-h''] = (Exit 1, [Print module_doc])"
    by blast
  from w1 n1 have r1: "main broken_env [''prog'', ''tpc-h'', ''abc'']
       = (Exit 1, [Print (''Error: Query number must be an integer, got '' @ quoted ''abc'')])"
    by blast
  from w2 n2 b1 have r2: "main broken_env [''prog'', ''tpc-x'', ''1'']
       = (Exit 1, [Print (''Error: Benchmark must be '' @ quoted ''tpc-h'' @ '' or ''
                            @ quoted ''tpc-ds'' @ '', got '' @ quoted (py_lower ''tpc-x''))])"
    by blast
  from w3 n2 b2 p2 x2 have r3: "main broken_env [''prog'', ''tpc-ds'', ''1'']
       = (Exit 1, [Print (''Reading query from: '' @ ''/repo/queries-tpc-ds/query1.sql''),
                   PathExists ''/repo/queries-tpc-ds/query1.sql'',
                   Print (''Error: Query file not found: ''
                            @ ''/repo/queries-tpc-ds/query1.sql'')])"
    by blast
  from w4 n2 b3 p3 x3 f3 t3 s3 c3 e3 have r4: "main broken_env [''prog'', ''tpc-h'', ''1'']
       = (Exit 1,
          snd (main_query broken_env (py_lower ''tpc-h'') 1)
          @ [Print banner, Print ''SPARK PHYSICAL PLAN:'', Print bar, SessionStarted]
          @ map CreateTable (if py_lower ''tpc-h'' = ''tpc-h'' then tpc_h_tables
                             else tpc_ds_tables)
          @ [Explain (str_join [CHR 0x0A] [''SELECT'', ''  1'']),
             Print (''Error getting physical plan: ''
                      @ ''Failed to get physical plan: '' @ ''ParseException''),
             SessionStop])"
    by blast
  have p5: "get_query_path untranslatable_env (py_lower ''tpc-h'') 1
              = Inr ''/repo/queries-tpc-h/1.sql''" by code_simp
  have x5: "path_exists untranslatable_env ''/repo/queries-tpc-h/1.sql''" by code_simp
  have f5: "file_open untranslatable_env ''/repo/queries-tpc-h/1.sql'' = Inr ''select 1''"
    by code_simp
  have t5: "transpile untranslatable_env ''select 1'' = Inl ''ParseError''" by code_simp
  have p6: "get_query_path no_spark_env (py_lower ''tpc-h'') 1
              = Inr ''/repo/queries-tpc-h/1.sql''" by code_simp
  have x6: "path_exists no_spark_env ''/repo/queries-tpc-h/1.sql''" by code_simp
  have f6: "file_open no_spark_env ''/repo/queries-tpc-h/1.sql'' = Inr ''select 1''"
    by code_simp
  have t6: "transpile no_spark_env ''select 1'' = Inr [''SELECT'', ''  1'']" by code_simp
  have s6: "session_create no_spark_env = Some ''Java gateway process exited''" by code_simp
  have p7: "get_query_path no_part_env (py_lower ''tpc-h'') 1
              = Inr ''/repo/queries-tpc-h/1.sql''" by code_simp
  have x7: "path_exists no_part_env ''/repo/queries-tpc-h/1.sql''" by code_simp
  have f7: "file_open no_part_env ''/repo/queries-tpc-h/1.sql'' = Inr ''select 1''"
    by code_simp
  have t7: "transpile no_part_env ''select 1'' = Inr [''SELECT'', ''  1'']" by code_simp
  have s7: "session_create no_part_env = None" by code_simp
  have c7: "(if py_lower ''tpc-h'' = ''tpc-h'' then create_tpc_h_tables no_part_env
             else create_tpc_ds_tables no_part_env)
            = (Some ''AnalysisException'',
               [CreateTable ''nation'', CreateTable ''region'', CreateTable ''part''])"
    by code_simp
  note w5 = failures_abort [where e = untranslatable_env and n = "''1''" and p = "''prog''"
      and b = "''tpc-h''" and k = 1 and path = "''/repo/queries-tpc-h/1.sql''"
      and q = "''select 1''" and msg = "''ParseError''"]
  note w6 = failures_abort [where e = no_spark_env and n = "''1''" and p = "''prog''"
      and b = "''tpc-h''" and k = 1 and path = "''/repo/queries-tpc-h/1.sql''"
      and q = "''select 1''" and stmts = "[''SELECT'', ''  1'']"
      and msg = "''Java gateway process exited''"]
  note w7 = failures_abort [where e = no_part_env and n = "''1''" and p = "''prog''"
      and b = "''tpc-h''" and k = 1 and path = "''/repo/queries-tpc-h/1.sql''"
      and q = "''select 1''" and stmts = "[''SELECT'', ''  1'']"
      and msg = "''AnalysisException''"
      and t = "[CreateTable ''nation'', CreateTable ''region'', CreateTable ''part'']"]
  from w5 n2 b3 p5 x5 f5 t5 have r5: "main untranslatable_env [''prog'', ''tpc-h'', ''1'']
       = (Exit 1,
          [Print (''Reading query from: '' @ ''/repo/queries-tpc-h/1.sql''),
           PathExists ''/repo/queries-tpc-h/1.sql'', FileOpen ''/repo/queries-tpc-h/1.sql'',
           Print banner, Print ''ORIGINAL QUERY:'', Print bar, Print ''select 1'',
           Print banner, Print ''TRANSLATED TO SPARK SQL:'', Print bar,
           Transpile ''select 1'',
           Print (''Error: Failed to translate query: '' @ ''ParseError'')])"
    by blast
  from w6 n2 b3 p6 x6 f6 t6 s6 have r6: "main no_spark_env [''prog'', ''tpc-h'', ''1'']
       = (Exit 1,
          snd (main_query no_spark_env (py_lower ''tpc-h'') 1)
          @ [Print banner, Print ''SPARK PHYSICAL PLAN:'', Print bar, SessionFailed,
             Print (''Error getting physical plan: '' @ ''Java gateway process exited'')])"
    by blast
  from w7 n2 b3 p7 x7 f7 t7 s7 c7 have r7: "main no_part_env [''prog'', ''tpc-h'', ''1'']
       = (Exit 1,
          snd (main_query no_part_env (py_lower ''tpc-h'') 1)
          @ [Print banner, Print ''SPARK PHYSICAL PLAN:'', Print bar, SessionStarted]
          @ [CreateTable ''nation'', CreateTable ''region'', CreateTable ''part'']
          @ [Print (''Error getting physical plan: '' @ ''AnalysisException''), SessionStop])"
    by blast
  from r0 r1 r2 r3 r4 r5 r6 r7 show ?thesis by blast
qed

end
